theory Spec2Isabelle
  imports Complex_Main "HOL-Library.Sublist"
begin

section \<open>Strings, thrown values and notifications\<close>

text \<open>
  A JavaScript string is modelled as a \<^typ>\<open>string\<close>: one \<^typ>\<open>char\<close> per UTF-16 code
  unit, for code units below 256. \<open>s.startsWith(p)\<close> is \<^term>\<open>prefix p s\<close> and
  \<open>s.includes(p)\<close> is \<^term>\<open>sublist p s\<close>; both compare code units, so they are
  case sensitive.
\<close>

definition startsWith :: "string \<Rightarrow> string \<Rightarrow> bool" where
  "startsWith s p = prefix p s"

definition includes_str :: "string \<Rightarrow> string \<Rightarrow> bool" where
  "includes_str s p = sublist p s"

text \<open>
  \<open>String.prototype.trim\<close> removes white space and line terminators from both ends.
  Below 256 these are TAB, LF, VT, FF, CR, SPACE and NO-BREAK SPACE.
\<close>

definition isWhiteSpace :: "char \<Rightarrow> bool" where
  "isWhiteSpace c = (of_char c \<in> {9, 10, 11, 12, 13, 32, 160 :: nat})"

definition trim :: "string \<Rightarrow> string" where
  "trim s = rev (dropWhile isWhiteSpace (rev (dropWhile isWhiteSpace s)))"

text \<open>
  A thrown value is an \<open>Error\<close> that is no \<open>TypeError\<close>, a \<open>TypeError\<close> (both carry
  their message), or a value that is no \<open>Error\<close> at all.
\<close>

datatype js_exn = JsError string | JsTypeError string | JsNonError

text \<open>The argument of \<open>toast({title, description, variant})\<close>; \<open>variant\<close> may be absent.\<close>

record toast =
  title :: string
  description :: string
  variant :: "string option"

section \<open>URL normalization\<close>

text \<open>
  \<open>new URL(s)\<close> belongs to the platform, not to the repository: it is a parameter
  \<open>URL\<close> of the model, \<^term>\<open>None\<close> where the constructor throws. Of the object it
  returns, the components read \<open>hostname\<close> and \<open>href\<close>.
\<close>

record url_obj =
  hostname :: string
  href :: string

type_synonym url_ctor = "string \<Rightarrow> url_obj option"

text \<open>
  \<open>validateUrl\<close> of \<open>SecurityScanner.tsx\<close> (Component A). Inside the \<open>try\<close> only the
  constructor can throw; the \<open>catch\<close> replaces whatever it threw by a new \<open>Error\<close>.
\<close>

definition validateUrl_A :: "url_ctor \<Rightarrow> string \<Rightarrow> js_exn + string" where
  "validateUrl_A URL inputUrl =
     (let inputUrl' =
            (if \<not> startsWith inputUrl ''http://'' \<and> \<not> startsWith inputUrl ''https://''
             then ''https://'' @ inputUrl
             else inputUrl)
      in case URL inputUrl' of
           None \<Rightarrow> Inl (JsError ''Please enter a valid URL'')
         | Some urlObj \<Rightarrow> Inr (hostname urlObj))"

text \<open>\<open>validateUrl\<close> of \<open>WebsiteSecurityChecker.tsx\<close> (Component B): it returns the href.\<close>

definition validateUrl_B :: "url_ctor \<Rightarrow> string \<Rightarrow> js_exn + string" where
  "validateUrl_B URL inputUrl =
     (let inputUrl' =
            (if \<not> startsWith inputUrl ''http://'' \<and> \<not> startsWith inputUrl ''https://''
             then ''https://'' @ inputUrl
             else inputUrl)
      in case URL inputUrl' of
           None \<Rightarrow> Inl (JsError ''Please enter a valid URL'')
         | Some urlObj \<Rightarrow> Inr (href urlObj))"

text \<open>
  A constructor to run the model on the two example inputs of the specification. It
  agrees with the platform's parser on \<open>https://example.com\<close> (host \<open>example.com\<close>, the
  href gains the path \<open>/\<close>) and on \<open>https://not a url\<close> (rejected: a space is no host
  code point); it is used at no other string.
\<close>

definition example_URL :: url_ctor where
  "example_URL s =
     (if s = ''https://example.com''
      then Some \<lparr>hostname = ''example.com'', href = ''https://example.com/''\<rparr>
      else None)"

section \<open>Component A: the simulated scanner\<close>

datatype safe_status = Safe | Unsafe | Unknown

datatype grade_status = Excellent | Good | Warning | Poor

text \<open>The two fields of \<open>SecurityResult\<close>.\<close>

record safeBrowsing_rec =
  sb_status :: safe_status
  sb_details :: string

record sslGrade_rec =
  grade :: string
  ssl_status :: grade_status
  ssl_details :: string

record SecurityResult =
  safeBrowsing :: safeBrowsing_rec
  sslGrade :: sslGrade_rec

text \<open>The three \<open>useState\<close> cells of the component.\<close>

record scanner_state =
  url :: string
  isScanning :: bool
  results :: "SecurityResult option"

text \<open>
  What a run does, in the order in which it does it: notifications, console output,
  state assignments, timers being set and firing, and the promises of the two checks
  being settled.
\<close>

datatype scanner_event =
    ToastA toast
  | SetIsScanning bool
  | SetResults "SecurityResult option"
  | ConsoleLog string string
  | SetTimeout nat
  | TimerFired nat
  | SafeBrowsingResolved safeBrowsing_rec
  | SSLResolved sslGrade_rec
  | SSLRejected js_exn

definition mockSafeResults :: "string list" where
  "mockSafeResults = [''google.com'', ''github.com'', ''stackoverflow.com'']"

text \<open>
  The value \<open>checkSafeBrowsing\<close> resolves with. \<open>random\<close> is what \<open>Math.random()\<close>
  returns there; a double exceeds the double \<open>0.3\<close> exactly when it exceeds the real
  number \<open>3/10\<close>, the double \<open>0.3\<close> being the largest one below it.
\<close>

definition checkSafeBrowsing :: "string \<Rightarrow> real \<Rightarrow> safeBrowsing_rec" where
  "checkSafeBrowsing domain random =
     (let isSafe = (list_ex (\<lambda>safe. includes_str domain safe) mockSafeResults \<or> random > 0.3)
      in \<lparr>sb_status = (if isSafe then Safe else Unsafe),
          sb_details = (if isSafe then ''No threats detected''
                        else ''Potential security threats found'')\<rparr>)"

definition grades :: "string list" where
  "grades = [''A+'', ''A'', ''A-'', ''B'', ''C'', ''F'']"

text \<open>
  The product of two doubles is the platform's: the exact product rounded to a double,
  which near an integer can be that integer where the exact product lies below it. It
  is a parameter \<open>fmul\<close> of the model, on the values of the doubles, so that nothing is
  said of the grade drawn beyond what the code does with the product.
\<close>

type_synonym double_mul = "real \<Rightarrow> real \<Rightarrow> real"

text \<open>
  The outcome of \<open>checkSSL\<close>: the index is \<open>Math.floor(Math.random() * grades.length)\<close>.
  An index outside of the array reads \<open>undefined\<close>, on which \<open>startsWith\<close> throws a
  \<open>TypeError\<close> (the message is the engine's).
\<close>

definition checkSSL :: "double_mul \<Rightarrow> string \<Rightarrow> real \<Rightarrow> js_exn + sslGrade_rec" where
  "checkSSL fmul domain random =
     (let i = \<lfloor>fmul random (real (length grades))\<rfloor>
      in if 0 \<le> i \<and> i < int (length grades)
         then let grade = grades ! nat i;
                  status = (if startsWith grade ''A'' then Excellent
                            else if grade = ''B'' then Good
                            else if grade = ''C'' then Warning
                            else Poor)
              in Inr \<lparr>grade = grade, ssl_status = status,
                      ssl_details = ''SSL certificate grade: '' @ grade\<rparr>
         else Inl (JsTypeError ''Cannot read properties of undefined (reading 'startsWith')''))"

text \<open>
  The \<open>try\<close> block of \<open>handleScan\<close>: its events and the value it throws, if any.
  \<open>Promise.all\<close> starts both checks (each logs and sets its timer), the timer of 1500 ms
  fires before the one of 2000 ms, and the join is settled once the second check is.
\<close>

definition handleScan_try ::
  "url_ctor \<Rightarrow> double_mul \<Rightarrow> real \<Rightarrow> real \<Rightarrow> scanner_state \<Rightarrow>
   scanner_event list \<times> js_exn option" where
  "handleScan_try URL fmul random1 random2 s =
     (case validateUrl_A URL (trim (url s)) of
        Inl e \<Rightarrow> ([], Some e)
      | Inr domain \<Rightarrow>
          (let safeBrowsingResult = checkSafeBrowsing domain random1;
               started =
                 [SetIsScanning True, SetResults None,
                  ConsoleLog ''Checking Safe Browsing for:'' domain, SetTimeout 1500,
                  ConsoleLog ''Checking SSL for:'' domain, SetTimeout 2000,
                  TimerFired 1500, SafeBrowsingResolved safeBrowsingResult,
                  TimerFired 2000]
           in case checkSSL fmul domain random2 of
                Inl e \<Rightarrow> (started @ [SSLRejected e], Some e)
              | Inr sslResult \<Rightarrow>
                  (started @
                   [SSLResolved sslResult,
                    SetResults (Some \<lparr>safeBrowsing = safeBrowsingResult, sslGrade = sslResult\<rparr>),
                    ToastA \<lparr>title = ''Scan Complete'',
                            description = ''Security scan completed for '' @ domain,
                            variant = None\<rparr>],
                   None)))"

text \<open>\<open>error instanceof Error ? error.message : fallback\<close>.\<close>

definition error_message :: "js_exn \<Rightarrow> string \<Rightarrow> string" where
  "error_message error fallback =
     (case error of JsError m \<Rightarrow> m | JsTypeError m \<Rightarrow> m | JsNonError \<Rightarrow> fallback)"

text \<open>\<open>handleScan\<close>: the early return, then \<open>try\<close>, \<open>catch\<close> and \<open>finally\<close>.\<close>

definition handleScan ::
  "url_ctor \<Rightarrow> double_mul \<Rightarrow> real \<Rightarrow> real \<Rightarrow> scanner_state \<Rightarrow> scanner_event list" where
  "handleScan URL fmul random1 random2 s =
     (if trim (url s) = []
      then [ToastA \<lparr>title = ''URL Required'',
                    description = ''Please enter a website URL to scan'',
                    variant = Some ''destructive''\<rparr>]
      else (case handleScan_try URL fmul random1 random2 s of
              (evs, None) \<Rightarrow> evs
            | (evs, Some error) \<Rightarrow>
                evs @ [ToastA \<lparr>title = ''Scan Failed'',
                              description = error_message error ''Failed to scan website'',
                              variant = Some ''destructive''\<rparr>])
           @ [SetIsScanning False])"

text \<open>The effect of an event on the state cells, and of a run on the state it starts in.\<close>

fun scanner_apply :: "scanner_state \<Rightarrow> scanner_event \<Rightarrow> scanner_state" where
  "scanner_apply s (SetIsScanning b) = s\<lparr>isScanning := b\<rparr>"
| "scanner_apply s (SetResults r) = s\<lparr>results := r\<rparr>"
| "scanner_apply s _ = s"

definition scanner_run :: "scanner_state \<Rightarrow> scanner_event list \<Rightarrow> scanner_state" where
  "scanner_run s evs = foldl scanner_apply s evs"

text \<open>The result cards are rendered under \<open>results && !isScanning\<close>.\<close>

definition rendered_results :: "scanner_state \<Rightarrow> SecurityResult option" where
  "rendered_results s = (if isScanning s then None else results s)"

text \<open>
  A product to run the model with. It is the product of doubles at the two draws it is
  used at: 0.5, where the exact product 3 is a double, and the double
  \<open>3752999689475413 / 2^52\<close> (written 0.8333333333333333, just below 5/6), where the exact
  product lies below 5 and is rounded to 5.
\<close>

definition example_fmul :: double_mul where
  "example_fmul x y =
     (if x = 3752999689475413 / 4503599627370496 \<and> y = 6 then 5 else x * y)"

text \<open>A state to run the component on: the field holds \<open>example.com\<close> between two spaces.\<close>

definition example_scanner :: scanner_state where
  "example_scanner = \<lparr>url = '' example.com '', isScanning = False, results = None\<rparr>"

text \<open>
  The same field over a result of an earlier scan, and a field of white space only
  over that result.
\<close>

definition stale_scanner :: scanner_state where
  "stale_scanner =
     \<lparr>url = '' example.com '', isScanning = False,
      results = Some \<lparr>safeBrowsing = \<lparr>sb_status = Unsafe,
                                       sb_details = ''Potential security threats found''\<rparr>,
                       sslGrade = \<lparr>grade = ''F'', ssl_status = Poor,
                                   ssl_details = ''SSL certificate grade: F''\<rparr>\<rparr>\<rparr>"

definition blank_scanner :: scanner_state where
  "blank_scanner = stale_scanner\<lparr>url := [CHR '' '', CHR 0x09, CHR 0x0A]\<rparr>"

section \<open>Component B: the live checker\<close>

record ThreatEntry =
  entry_url :: string

record ThreatMatch =
  threatType :: string
  platformType :: string
  threatEntryType :: string
  threat :: ThreatEntry

text \<open>\<open>matches\<close> is optional: \<^term>\<open>None\<close> where the response has no such field.\<close>

record SafeBrowsingResponse =
  matches :: "ThreatMatch list option"

text \<open>The type of the \<open>result\<close> cell: \<open>{ safe: boolean; threats?: string[] }\<close>.\<close>

record check_result =
  safe :: bool
  threats :: "string list option"

record checker_state =
  url_B :: string
  isChecking :: bool
  result :: "check_result option"

text \<open>
  What the component reads of a \<open>Response\<close>: its status, and what \<open>response.json()\<close>
  settles with. \<open>response.ok\<close> is, by the Fetch standard, a status from 200 to 299.
\<close>

record http_response =
  status :: nat
  json :: "js_exn + SafeBrowsingResponse"

definition response_ok :: "http_response \<Rightarrow> bool" where
  "response_ok response = (200 \<le> status response \<and> status response \<le> 299)"

text \<open>
  \<open>fetch\<close> is a parameter of the model: from the URL entry of the request (the endpoint,
  the headers and the rest of the body are constants of the source) to the rejection or
  the response.
\<close>

type_synonym fetch_fn = "string \<Rightarrow> js_exn + http_response"

datatype checker_event =
    ToastB toast
  | SetIsChecking bool
  | SetResult "check_result option"
  | FetchPost string
  | ConsoleError string js_exn

text \<open>The decimal digits a template literal writes for a status code.\<close>

fun string_of_nat :: "nat \<Rightarrow> string" where
  "string_of_nat n =
     (if n < 10 then [char_of (48 + n)]
      else string_of_nat (n div 10) @ [char_of (48 + n mod 10)])"

declare string_of_nat.simps [simp del]

text \<open>The \<open>try\<close> block of \<open>checkSafety\<close>: its events and the value it throws, if any.\<close>

definition checkSafety_try ::
  "url_ctor \<Rightarrow> fetch_fn \<Rightarrow> checker_state \<Rightarrow> checker_event list \<times> js_exn option" where
  "checkSafety_try URL fetch s =
     (case validateUrl_B URL (trim (url_B s)) of
        Inl e \<Rightarrow> ([], Some e)
      | Inr validatedUrl \<Rightarrow>
          (let started = [SetIsChecking True, SetResult None, FetchPost validatedUrl]
           in case fetch validatedUrl of
                Inl e \<Rightarrow> (started, Some e)
              | Inr response \<Rightarrow>
                  if \<not> response_ok response
                  then (started,
                        Some (JsError (''API Error: '' @ string_of_nat (status response))))
                  else (case json response of
                          Inl e \<Rightarrow> (started, Some e)
                        | Inr data \<Rightarrow>
                            if matches data = None \<or> length (the (matches data)) = 0
                            then (started @
                                  [SetResult (Some \<lparr>safe = True, threats = None\<rparr>),
                                   ToastB \<lparr>title = ''Scan Complete'',
                                           description = ''Website is safe to visit'',
                                           variant = None\<rparr>],
                                  None)
                            else (let threats' = map threatType (the (matches data))
                                  in (started @
                                      [SetResult (Some \<lparr>safe = False, threats = Some threats'\<rparr>),
                                       ToastB \<lparr>title = ''Security Warning'',
                                               description = ''Potential threats detected'',
                                               variant = Some ''destructive''\<rparr>],
                                      None)))))"

text \<open>The \<open>catch\<close> block of \<open>checkSafety\<close>.\<close>

definition checkSafety_catch :: "js_exn \<Rightarrow> checker_event list" where
  "checkSafety_catch error =
     [ConsoleError ''Security check error:'' error,
      (if (case error of JsTypeError m \<Rightarrow> includes_str m ''fetch'' | _ \<Rightarrow> False)
       then ToastB \<lparr>title = ''Connection Error'',
                    description = ''Unable to connect to security service. This may be due to CORS restrictions.'',
                    variant = Some ''destructive''\<rparr>
       else ToastB \<lparr>title = ''Check Failed'',
                    description = error_message error ''Failed to check website safety'',
                    variant = Some ''destructive''\<rparr>)]"

text \<open>\<open>checkSafety\<close>: the early return, then \<open>try\<close>, \<open>catch\<close> and \<open>finally\<close>.\<close>

definition checkSafety :: "url_ctor \<Rightarrow> fetch_fn \<Rightarrow> checker_state \<Rightarrow> checker_event list" where
  "checkSafety URL fetch s =
     (if trim (url_B s) = []
      then [ToastB \<lparr>title = ''URL Required'',
                    description = ''Please enter a website URL to check'',
                    variant = Some ''destructive''\<rparr>]
      else (case checkSafety_try URL fetch s of
              (evs, None) \<Rightarrow> evs
            | (evs, Some error) \<Rightarrow> evs @ checkSafety_catch error)
           @ [SetIsChecking False])"

fun checker_apply :: "checker_state \<Rightarrow> checker_event \<Rightarrow> checker_state" where
  "checker_apply s (SetIsChecking b) = s\<lparr>isChecking := b\<rparr>"
| "checker_apply s (SetResult r) = s\<lparr>result := r\<rparr>"
| "checker_apply s _ = s"

definition checker_run :: "checker_state \<Rightarrow> checker_event list \<Rightarrow> checker_state" where
  "checker_run s evs = foldl checker_apply s evs"

text \<open>
  The threat tags of the result card. The card is rendered under
  \<open>result && !isChecking\<close>; a safe result shows a paragraph and no tags, an unsafe one
  shows \<open>result.threats?.map(threat => threat.replace(/_/g, ' '))\<close>.
\<close>

definition replace_underscores :: "string \<Rightarrow> string" where
  "replace_underscores tag = map (\<lambda>c. if c = CHR ''_'' then CHR '' '' else c) tag"

definition threat_tags :: "checker_state \<Rightarrow> string list" where
  "threat_tags s =
     (case result s of
        None \<Rightarrow> []
      | Some r \<Rightarrow>
          if isChecking s then []
          else if safe r then []
          else (case threats r of None \<Rightarrow> [] | Some ts \<Rightarrow> map replace_underscores ts))"

text \<open>
  A state, responses and a match list to run the component on: \<open>fetch\<close> answers with
  the given status and a body holding the given \<open>matches\<close>.
\<close>

definition example_checker :: checker_state where
  "example_checker = \<lparr>url_B = ''example.com'', isChecking = False, result = None\<rparr>"

definition example_fetch :: "nat \<Rightarrow> ThreatMatch list option \<Rightarrow> fetch_fn" where
  "example_fetch st ms v = Inr \<lparr>status = st, json = Inr \<lparr>matches = ms\<rparr>\<rparr>"

definition example_matches :: "ThreatMatch list" where
  "example_matches =
     [\<lparr>threatType = ''SOCIAL_ENGINEERING'', platformType = ''ANY_PLATFORM'',
       threatEntryType = ''URL'', threat = \<lparr>entry_url = ''https://example.com/''\<rparr>\<rparr>,
      \<lparr>threatType = ''POTENTIALLY_HARMFUL_APPLICATION'', platformType = ''ANY_PLATFORM'',
       threatEntryType = ''URL'', threat = \<lparr>entry_url = ''https://example.com/''\<rparr>\<rparr>]"

section \<open>The runs of Component A, case by case\<close>

text \<open>A string trims to the empty string exactly when all of it is white space.\<close>

lemma trim_empty_iff: "trim s = [] \<longleftrightarrow> (\<forall>c \<in> set s. isWhiteSpace c)"
proof -
  have "trim s = [] \<longleftrightarrow> (\<forall>c \<in> set (dropWhile isWhiteSpace s). isWhiteSpace c)"
    by (simp add: trim_def dropWhile_eq_Nil_conv)
  also have "\<dots> \<longleftrightarrow> dropWhile isWhiteSpace s = []"
  proof
    assume a: "\<forall>c \<in> set (dropWhile isWhiteSpace s). isWhiteSpace c"
    show "dropWhile isWhiteSpace s = []"
    proof (rule ccontr)
      assume n: "dropWhile isWhiteSpace s \<noteq> []"
      then have "\<not> isWhiteSpace (hd (dropWhile isWhiteSpace s))"
        by (rule hd_dropWhile)
      moreover from n have "hd (dropWhile isWhiteSpace s) \<in> set (dropWhile isWhiteSpace s)"
        by simp
      ultimately show False using a by blast
    qed
  next
    assume e: "dropWhile isWhiteSpace s = []"
    show "\<forall>c \<in> set (dropWhile isWhiteSpace s). isWhiteSpace c"
      unfolding e by simp
  qed
  also have "\<dots> \<longleftrightarrow> (\<forall>c \<in> set s. isWhiteSpace c)"
    by (simp add: dropWhile_eq_Nil_conv)
  finally show ?thesis .
qed

lemma handleScan_blank:
  "trim (url s) = [] \<Longrightarrow>
   handleScan URL fmul r1 r2 s =
     [ToastA \<lparr>title = ''URL Required'', description = ''Please enter a website URL to scan'',
              variant = Some ''destructive''\<rparr>]"
  by (simp add: handleScan_def)

lemma handleScan_invalid:
  "trim (url s) \<noteq> [] \<Longrightarrow> validateUrl_A URL (trim (url s)) = Inl e \<Longrightarrow>
   handleScan URL fmul r1 r2 s =
     [ToastA \<lparr>title = ''Scan Failed'', description = error_message e ''Failed to scan website'',
              variant = Some ''destructive''\<rparr>,
      SetIsScanning False]"
  by (simp add: handleScan_def handleScan_try_def)

lemma handleScan_rejected:
  "trim (url s) \<noteq> [] \<Longrightarrow> validateUrl_A URL (trim (url s)) = Inr domain \<Longrightarrow>
   checkSSL fmul domain r2 = Inl e \<Longrightarrow>
   handleScan URL fmul r1 r2 s =
     [SetIsScanning True, SetResults None,
      ConsoleLog ''Checking Safe Browsing for:'' domain, SetTimeout 1500,
      ConsoleLog ''Checking SSL for:'' domain, SetTimeout 2000,
      TimerFired 1500, SafeBrowsingResolved (checkSafeBrowsing domain r1),
      TimerFired 2000, SSLRejected e,
      ToastA \<lparr>title = ''Scan Failed'', description = error_message e ''Failed to scan website'',
              variant = Some ''destructive''\<rparr>,
      SetIsScanning False]"
  by (simp add: handleScan_def handleScan_try_def Let_def)

lemma handleScan_complete:
  "trim (url s) \<noteq> [] \<Longrightarrow> validateUrl_A URL (trim (url s)) = Inr domain \<Longrightarrow>
   checkSSL fmul domain r2 = Inr ssl \<Longrightarrow>
   handleScan URL fmul r1 r2 s =
     [SetIsScanning True, SetResults None,
      ConsoleLog ''Checking Safe Browsing for:'' domain, SetTimeout 1500,
      ConsoleLog ''Checking SSL for:'' domain, SetTimeout 2000,
      TimerFired 1500, SafeBrowsingResolved (checkSafeBrowsing domain r1),
      TimerFired 2000, SSLResolved ssl,
      SetResults (Some \<lparr>safeBrowsing = checkSafeBrowsing domain r1, sslGrade = ssl\<rparr>),
      ToastA \<lparr>title = ''Scan Complete'', description = ''Security scan completed for '' @ domain,
              variant = None\<rparr>,
      SetIsScanning False]"
  by (simp add: handleScan_def handleScan_try_def Let_def)

lemma checkSSL_in_range:
  "0 \<le> fmul r 6 \<Longrightarrow> fmul r 6 < 6 \<Longrightarrow> \<exists>ssl. checkSSL fmul domain r = Inr ssl"
proof -
  assume a: "0 \<le> fmul r 6" "fmul r 6 < 6"
  then have "0 \<le> \<lfloor>fmul r 6\<rfloor>" by simp
  moreover from a have "\<lfloor>fmul r 6\<rfloor> < 6" by (simp add: floor_less_iff)
  ultimately show ?thesis by (simp add: checkSSL_def grades_def Let_def)
qed

lemma handleScan_cases:
  obtains
    (blank) "trim (url s) = []"
  | (invalid) e where "trim (url s) \<noteq> []" "validateUrl_A URL (trim (url s)) = Inl e"
  | (rejected) domain e where "trim (url s) \<noteq> []" "validateUrl_A URL (trim (url s)) = Inr domain"
      "checkSSL fmul domain r2 = Inl e"
  | (complete) domain ssl where "trim (url s) \<noteq> []" "validateUrl_A URL (trim (url s)) = Inr domain"
      "checkSSL fmul domain r2 = Inr ssl"
  by (cases "trim (url s) = []"; cases "validateUrl_A URL (trim (url s))";
      cases "checkSSL fmul (projr (validateUrl_A URL (trim (url s)))) r2") auto

lemma set_results_decomp:
  assumes "handleScan URL fmul r1 r2 s = pre @ SetResults (Some r) # post"
  shows "SafeBrowsingResolved (safeBrowsing r) \<in> set pre \<and> SSLResolved (sslGrade r) \<in> set pre \<and>
     TimerFired 1500 \<in> set pre \<and> TimerFired 2000 \<in> set pre"
proof (cases rule: handleScan_cases [where s = s and URL = URL and fmul = fmul and ?r2.0 = r2])
  case blank
  with assms show ?thesis
    by (simp add: handleScan_blank [OF blank] Cons_eq_append_conv)
next
  case (invalid e)
  with assms show ?thesis
    by (auto simp add: handleScan_invalid Cons_eq_append_conv)
next
  case (rejected domain e)
  with assms show ?thesis
    by (auto simp add: handleScan_rejected Cons_eq_append_conv)
next
  case (complete domain ssl)
  with assms show ?thesis
    by (auto simp add: handleScan_complete Cons_eq_append_conv)
qed

lemma stored_along_run:
  assumes "handleScan URL fmul r1 r2 s = pre @ post"
  shows "results (scanner_run s pre) = results s \<or> results (scanner_run s pre) = None \<or>
     (\<exists>r. results (scanner_run s pre) = Some r \<and>
        SafeBrowsingResolved (safeBrowsing r) \<in> set pre \<and> SSLResolved (sslGrade r) \<in> set pre)"
proof (cases rule: handleScan_cases [where s = s and URL = URL and fmul = fmul and ?r2.0 = r2])
  case blank
  with assms show ?thesis
    by (auto simp add: handleScan_blank scanner_run_def Cons_eq_append_conv)
next
  case (invalid e)
  with assms show ?thesis
    by (auto simp add: handleScan_invalid scanner_run_def Cons_eq_append_conv)
next
  case (rejected domain e)
  with assms show ?thesis
    by (auto simp add: handleScan_rejected scanner_run_def Cons_eq_append_conv)
next
  case (complete domain ssl)
  with assms show ?thesis
    by (auto simp add: handleScan_complete scanner_run_def Cons_eq_append_conv)
qed

text \<open>One complete run, evaluated.\<close>

lemma example_scan_facts:
  "trim (url example_scanner) = ''example.com''"
  "validateUrl_A example_URL ''example.com'' = Inr ''example.com''"
  "checkSSL example_fmul ''example.com'' (1 / 2) =
     Inr \<lparr>grade = ''B'', ssl_status = Good, ssl_details = ''SSL certificate grade: B''\<rparr>"
  "checkSafeBrowsing ''example.com'' (1 / 2) =
     \<lparr>sb_status = Safe, sb_details = ''No threats detected''\<rparr>"
     apply (simp add: example_scanner_def trim_def isWhiteSpace_def)
    apply (simp add: validateUrl_A_def example_URL_def startsWith_def)
   apply (simp add: checkSSL_def example_fmul_def grades_def startsWith_def Let_def)
  apply (simp add: checkSafeBrowsing_def Let_def)
  done

lemma rounded_draw_fact:
  "checkSSL example_fmul ''example.com'' (3752999689475413 / 4503599627370496) =
     Inr \<lparr>grade = ''F'', ssl_status = Poor, ssl_details = ''SSL certificate grade: F''\<rparr>"
  by (simp add: checkSSL_def example_fmul_def grades_def startsWith_def Let_def)

lemma example_scan_run:
  "handleScan example_URL example_fmul (1 / 2) (1 / 2) example_scanner =
     [SetIsScanning True, SetResults None,
      ConsoleLog ''Checking Safe Browsing for:'' ''example.com'', SetTimeout 1500,
      ConsoleLog ''Checking SSL for:'' ''example.com'', SetTimeout 2000,
      TimerFired 1500,
      SafeBrowsingResolved \<lparr>sb_status = Safe, sb_details = ''No threats detected''\<rparr>,
      TimerFired 2000,
      SSLResolved \<lparr>grade = ''B'', ssl_status = Good, ssl_details = ''SSL certificate grade: B''\<rparr>,
      SetResults (Some \<lparr>safeBrowsing = \<lparr>sb_status = Safe, sb_details = ''No threats detected''\<rparr>,
                        sslGrade = \<lparr>grade = ''B'', ssl_status = Good,
                                    ssl_details = ''SSL certificate grade: B''\<rparr>\<rparr>),
      ToastA \<lparr>title = ''Scan Complete'',
              description = ''Security scan completed for example.com'', variant = None\<rparr>,
      SetIsScanning False]"
  using handleScan_complete
    [where s = example_scanner and URL = example_URL and fmul = example_fmul and
      domain = "''example.com''" and ?r1.0 = "1 / 2" and ?r2.0 = "1 / 2"]
  by (simp add: example_scan_facts)

lemma stale_scan_facts:
  "trim (url stale_scanner) = ''example.com''"
  by (simp add: stale_scanner_def trim_def isWhiteSpace_def)

lemma handleScan_ends_idle:
  "trim (url s) \<noteq> [] \<or> \<not> isScanning s \<Longrightarrow>
   \<not> isScanning (scanner_run s (handleScan URL fmul r1 r2 s))"
  by (cases rule: handleScan_cases [where s = s and URL = URL and fmul = fmul and ?r2.0 = r2])
    (auto simp add: handleScan_blank handleScan_invalid handleScan_rejected handleScan_complete
      scanner_run_def)

lemma handleScan_caught:
  "trim (url s) \<noteq> [] \<Longrightarrow> handleScan_try URL fmul r1 r2 s = (evs, Some e) \<Longrightarrow>
   handleScan URL fmul r1 r2 s =
     evs @ [ToastA \<lparr>title = ''Scan Failed'',
                    description = error_message e ''Failed to scan website'',
                    variant = Some ''destructive''\<rparr>,
            SetIsScanning False]"
  by (simp add: handleScan_def)

lemma handleScan_timers_once:
  assumes "handleScan URL fmul r1 r2 s = pre @ SetTimeout d # post"
  shows "SetTimeout d \<notin> set pre \<and> SetTimeout d \<notin> set post"
proof (cases rule: handleScan_cases [where s = s and URL = URL and fmul = fmul and ?r2.0 = r2])
  case blank
  with assms show ?thesis
    by (auto simp add: handleScan_blank Cons_eq_append_conv)
next
  case (invalid e)
  with assms show ?thesis
    by (auto simp add: handleScan_invalid Cons_eq_append_conv)
next
  case (rejected domain e)
  with assms show ?thesis
    by (auto simp add: handleScan_rejected Cons_eq_append_conv)
next
  case (complete domain ssl)
  with assms show ?thesis
    by (auto simp add: handleScan_complete Cons_eq_append_conv)
qed

lemma blank_scan:
  "\<forall>ch \<in> set (url s). isWhiteSpace ch \<Longrightarrow>
   trim (url s) = [] \<and>
   handleScan URL fmul r1 r2 s =
     [ToastA \<lparr>title = ''URL Required'', description = ''Please enter a website URL to scan'',
              variant = Some ''destructive''\<rparr>] \<and>
   scanner_run s (handleScan URL fmul r1 r2 s) = s"
  by (simp add: trim_empty_iff [symmetric] handleScan_blank scanner_run_def)

section \<open>The runs of Component B, case by case\<close>

lemma checkSafety_blank:
  "trim (url_B c) = [] \<Longrightarrow>
   checkSafety URL fetch c =
     [ToastB \<lparr>title = ''URL Required'', description = ''Please enter a website URL to check'',
              variant = Some ''destructive''\<rparr>]"
  by (simp add: checkSafety_def)

lemma checkSafety_invalid:
  "trim (url_B c) \<noteq> [] \<Longrightarrow> validateUrl_B URL (trim (url_B c)) = Inl e \<Longrightarrow>
   checkSafety_try URL fetch c = ([], Some e) \<and>
   checkSafety URL fetch c = checkSafety_catch e @ [SetIsChecking False]"
  by (simp add: checkSafety_def checkSafety_try_def)

lemma checkSafety_fetch_rejected:
  "trim (url_B c) \<noteq> [] \<Longrightarrow> validateUrl_B URL (trim (url_B c)) = Inr v \<Longrightarrow>
   fetch v = Inl e \<Longrightarrow>
   checkSafety_try URL fetch c = ([SetIsChecking True, SetResult None, FetchPost v], Some e) \<and>
   checkSafety URL fetch c =
     [SetIsChecking True, SetResult None, FetchPost v] @ checkSafety_catch e @ [SetIsChecking False]"
  by (simp add: checkSafety_def checkSafety_try_def)

lemma checkSafety_not_ok:
  "trim (url_B c) \<noteq> [] \<Longrightarrow> validateUrl_B URL (trim (url_B c)) = Inr v \<Longrightarrow>
   fetch v = Inr response \<Longrightarrow> \<not> response_ok response \<Longrightarrow>
   checkSafety_try URL fetch c =
     ([SetIsChecking True, SetResult None, FetchPost v],
      Some (JsError (''API Error: '' @ string_of_nat (status response)))) \<and>
   checkSafety URL fetch c =
     [SetIsChecking True, SetResult None, FetchPost v] @
     checkSafety_catch (JsError (''API Error: '' @ string_of_nat (status response))) @
     [SetIsChecking False]"
  by (simp add: checkSafety_def checkSafety_try_def)

lemma checkSafety_json_rejected:
  "trim (url_B c) \<noteq> [] \<Longrightarrow> validateUrl_B URL (trim (url_B c)) = Inr v \<Longrightarrow>
   fetch v = Inr response \<Longrightarrow> response_ok response \<Longrightarrow> json response = Inl e \<Longrightarrow>
   checkSafety_try URL fetch c = ([SetIsChecking True, SetResult None, FetchPost v], Some e) \<and>
   checkSafety URL fetch c =
     [SetIsChecking True, SetResult None, FetchPost v] @ checkSafety_catch e @ [SetIsChecking False]"
  by (simp add: checkSafety_def checkSafety_try_def)

lemma checkSafety_no_match:
  "trim (url_B c) \<noteq> [] \<Longrightarrow> validateUrl_B URL (trim (url_B c)) = Inr v \<Longrightarrow>
   fetch v = Inr response \<Longrightarrow> response_ok response \<Longrightarrow> json response = Inr data \<Longrightarrow>
   matches data = None \<or> matches data = Some [] \<Longrightarrow>
   checkSafety URL fetch c =
     [SetIsChecking True, SetResult None, FetchPost v,
      SetResult (Some \<lparr>safe = True, threats = None\<rparr>),
      ToastB \<lparr>title = ''Scan Complete'', description = ''Website is safe to visit'',
              variant = None\<rparr>,
      SetIsChecking False]"
  by (auto simp add: checkSafety_def checkSafety_try_def)

lemma checkSafety_match:
  "trim (url_B c) \<noteq> [] \<Longrightarrow> validateUrl_B URL (trim (url_B c)) = Inr v \<Longrightarrow>
   fetch v = Inr response \<Longrightarrow> response_ok response \<Longrightarrow> json response = Inr data \<Longrightarrow>
   matches data = Some ms \<Longrightarrow> ms \<noteq> [] \<Longrightarrow>
   checkSafety URL fetch c =
     [SetIsChecking True, SetResult None, FetchPost v,
      SetResult (Some \<lparr>safe = False, threats = Some (map threatType ms)\<rparr>),
      ToastB \<lparr>title = ''Security Warning'', description = ''Potential threats detected'',
              variant = Some ''destructive''\<rparr>,
      SetIsChecking False]"
  by (simp add: checkSafety_def checkSafety_try_def)

lemma checkSafety_catch_shape:
  "\<exists>t. checkSafety_catch e = [ConsoleError ''Security check error:'' e, ToastB t] \<and>
       variant t = Some ''destructive'' \<and>
       (title t = ''Connection Error'' \<or>
        title t = ''Check Failed'' \<and>
        description t = error_message e ''Failed to check website safety'')"
  by (simp add: checkSafety_catch_def)

lemma checkSafety_cases:
  obtains
    (blank) "trim (url_B c) = []"
  | (invalid) e where "trim (url_B c) \<noteq> []" "validateUrl_B URL (trim (url_B c)) = Inl e"
  | (fetch_rejected) v e where "trim (url_B c) \<noteq> []"
      "validateUrl_B URL (trim (url_B c)) = Inr v" "fetch v = Inl e"
  | (not_ok) v response where "trim (url_B c) \<noteq> []"
      "validateUrl_B URL (trim (url_B c)) = Inr v" "fetch v = Inr response"
      "\<not> response_ok response"
  | (json_rejected) v response e where "trim (url_B c) \<noteq> []"
      "validateUrl_B URL (trim (url_B c)) = Inr v" "fetch v = Inr response"
      "response_ok response" "json response = Inl e"
  | (no_match) v response data where "trim (url_B c) \<noteq> []"
      "validateUrl_B URL (trim (url_B c)) = Inr v" "fetch v = Inr response"
      "response_ok response" "json response = Inr data"
      "matches data = None \<or> matches data = Some []"
  | (match) v response data ms where "trim (url_B c) \<noteq> []"
      "validateUrl_B URL (trim (url_B c)) = Inr v" "fetch v = Inr response"
      "response_ok response" "json response = Inr data"
      "matches data = Some ms" "ms \<noteq> []"
proof (cases "trim (url_B c) = []")
  case True then show ?thesis by (rule blank)
next
  case nb: False
  show ?thesis
  proof (cases "validateUrl_B URL (trim (url_B c))")
    case (Inl e) with nb show ?thesis by (rule invalid)
  next
    case v: (Inr v)
    show ?thesis
    proof (cases "fetch v")
      case (Inl e) with nb v show ?thesis by (rule fetch_rejected)
    next
      case f: (Inr response)
      show ?thesis
      proof (cases "response_ok response")
        case False with nb v f show ?thesis by (rule not_ok)
      next
        case ok: True
        show ?thesis
        proof (cases "json response")
          case (Inl e) with nb v f ok show ?thesis by (rule json_rejected)
        next
          case d: (Inr data)
          show ?thesis
          proof (cases "matches data")
            case None with nb v f ok d show ?thesis by (auto intro: no_match)
          next
            case (Some ms)
            with nb v f ok d show ?thesis
              by (cases "ms = []") (auto intro: no_match match)
          qed
        qed
      qed
    qed
  qed
qed

lemma example_check_facts:
  "trim (url_B example_checker) = ''example.com''"
  "validateUrl_B example_URL ''example.com'' = Inr ''https://example.com/''"
   apply (simp add: example_checker_def trim_def isWhiteSpace_def)
  apply (simp add: validateUrl_B_def example_URL_def startsWith_def)
  done

lemma checkSafety_ends_idle:
  "trim (url_B c) \<noteq> [] \<or> \<not> isChecking c \<Longrightarrow>
   \<not> isChecking (checker_run c (checkSafety URL fetch c))"
  by (cases rule: checkSafety_cases [where c = c and URL = URL and fetch = fetch])
    (auto simp add: checkSafety_blank checkSafety_invalid checkSafety_fetch_rejected
      checkSafety_not_ok checkSafety_json_rejected checkSafety_no_match checkSafety_match
      checkSafety_catch_def checker_run_def)

lemma checkSafety_caught:
  "trim (url_B c) \<noteq> [] \<Longrightarrow> checkSafety_try URL fetch c = (evs, Some e) \<Longrightarrow>
   \<exists>t. checkSafety URL fetch c =
         evs @ [ConsoleError ''Security check error:'' e, ToastB t, SetIsChecking False] \<and>
       variant t = Some ''destructive'' \<and>
       (title t = ''Connection Error'' \<or>
        title t = ''Check Failed'' \<and>
        description t = error_message e ''Failed to check website safety'')"
  using checkSafety_catch_shape [of e] by (auto simp add: checkSafety_def)

lemma checkSafety_fetch_once:
  assumes "checkSafety URL fetch c = pre @ FetchPost v # post"
  shows "FetchPost w \<notin> set pre \<and> FetchPost w \<notin> set post"
proof (cases rule: checkSafety_cases [where c = c and URL = URL and fetch = fetch])
  case blank
  with assms show ?thesis
    by (auto simp add: checkSafety_blank Cons_eq_append_conv)
next
  case (invalid e)
  with assms show ?thesis
    by (auto simp add: checkSafety_invalid checkSafety_catch_def Cons_eq_append_conv
        split: if_splits)
next
  case (fetch_rejected v' e)
  with assms show ?thesis
    by (auto simp add: checkSafety_fetch_rejected checkSafety_catch_def Cons_eq_append_conv
        split: if_splits)
next
  case (not_ok v' response)
  with assms show ?thesis
    by (auto simp add: checkSafety_not_ok checkSafety_catch_def Cons_eq_append_conv
        split: if_splits)
next
  case (json_rejected v' response e)
  with assms show ?thesis
    by (auto simp add: checkSafety_json_rejected checkSafety_catch_def Cons_eq_append_conv
        split: if_splits)
next
  case (no_match v' response data)
  with assms show ?thesis
    by (auto simp add: checkSafety_no_match [where fetch = fetch, OF no_match] Cons_eq_append_conv)
next
  case (match v' response data ms)
  with assms show ?thesis
    by (auto simp add: checkSafety_match Cons_eq_append_conv)
qed

lemma blank_check:
  "\<forall>ch \<in> set (url_B c). isWhiteSpace ch \<Longrightarrow>
   trim (url_B c) = [] \<and>
   checkSafety URL fetch c =
     [ToastB \<lparr>title = ''URL Required'', description = ''Please enter a website URL to check'',
              variant = Some ''destructive''\<rparr>] \<and>
   checker_run c (checkSafety URL fetch c) = c"
  by (simp add: trim_empty_iff [symmetric] checkSafety_blank checker_run_def)

section \<open>URL normalization: what is parsed, and when it fails\<close>

text \<open>
  C2. An input that starts with neither \<open>http://\<close> nor \<open>https://\<close> is parsed with
  \<open>https://\<close> prepended, in both components; an input that starts with one of them is
  parsed as it is. This holds for every URL constructor, so the string handed to the
  constructor is the one stated.
\<close>

theorem validateUrl_prepends_https:
  "(\<not> startsWith s ''http://'' \<and> \<not> startsWith s ''https://'' \<longrightarrow>
      validateUrl_A URL s =
        (case URL (''https://'' @ s) of
           None \<Rightarrow> Inl (JsError ''Please enter a valid URL'')
         | Some u \<Rightarrow> Inr (hostname u)) \<and>
      validateUrl_B URL s =
        (case URL (''https://'' @ s) of
           None \<Rightarrow> Inl (JsError ''Please enter a valid URL'')
         | Some u \<Rightarrow> Inr (href u))) \<and>
   (startsWith s ''http://'' \<or> startsWith s ''https://'' \<longrightarrow>
      validateUrl_A URL s =
        (case URL s of
           None \<Rightarrow> Inl (JsError ''Please enter a valid URL'')
         | Some u \<Rightarrow> Inr (hostname u)) \<and>
      validateUrl_B URL s =
        (case URL s of
           None \<Rightarrow> Inl (JsError ''Please enter a valid URL'')
         | Some u \<Rightarrow> Inr (href u)))"
  unfolding validateUrl_A_def validateUrl_B_def Let_def by auto

text \<open>
  With a constructor that hands back the string it was given: \<open>example.com\<close> is parsed
  as \<open>https://example.com\<close>, and \<open>http://example.com\<close> as itself.
\<close>

theorem validateUrl_prepends_https_witness:
  "validateUrl_A (\<lambda>x. Some \<lparr>hostname = x, href = x\<rparr>) ''example.com'' = Inr ''https://example.com'' \<and>
   validateUrl_B (\<lambda>x. Some \<lparr>hostname = x, href = x\<rparr>) ''example.com'' = Inr ''https://example.com'' \<and>
   validateUrl_A (\<lambda>x. Some \<lparr>hostname = x, href = x\<rparr>) ''http://example.com'' = Inr ''http://example.com'' \<and>
   validateUrl_B (\<lambda>x. Some \<lparr>hostname = x, href = x\<rparr>) ''http://example.com'' = Inr ''http://example.com''"
  using validateUrl_prepends_https [of "''example.com''" "\<lambda>x. Some \<lparr>hostname = x, href = x\<rparr>"]
    validateUrl_prepends_https [of "''http://example.com''" "\<lambda>x. Some \<lparr>hostname = x, href = x\<rparr>"]
  by (simp add: startsWith_def)

text \<open>
  C3. In both components \<open>validateUrl\<close> fails exactly when the constructor rejects the
  string it is given (the input, with \<open>https://\<close> prepended where it starts with neither
  scheme), and whatever it throws is the \<open>Error\<close> with the message
  \<open>Please enter a valid URL\<close>. The constructor rejecting \<open>https://not a url\<close>, the input
  \<open>not a url\<close> fails with that message.
\<close>

theorem validateUrl_fails_iff_unparseable:
  "(isl (validateUrl_A URL s) \<longleftrightarrow>
      URL (if startsWith s ''http://'' \<or> startsWith s ''https://'' then s else ''https://'' @ s) = None) \<and>
   (isl (validateUrl_B URL s) \<longleftrightarrow>
      URL (if startsWith s ''http://'' \<or> startsWith s ''https://'' then s else ''https://'' @ s) = None) \<and>
   (\<forall>e. validateUrl_A URL s = Inl e \<longrightarrow> e = JsError ''Please enter a valid URL'') \<and>
   (\<forall>e. validateUrl_B URL s = Inl e \<longrightarrow> e = JsError ''Please enter a valid URL'') \<and>
   (URL ''https://not a url'' = None \<longrightarrow>
      validateUrl_A URL ''not a url'' = Inl (JsError ''Please enter a valid URL'') \<and>
      validateUrl_B URL ''not a url'' = Inl (JsError ''Please enter a valid URL''))"
  unfolding validateUrl_A_def validateUrl_B_def Let_def startsWith_def
  by (auto split: option.splits)

theorem validateUrl_fails_iff_unparseable_witness:
  "example_URL ''https://not a url'' = None \<and>
   validateUrl_A example_URL ''not a url'' = Inl (JsError ''Please enter a valid URL'') \<and>
   validateUrl_B example_URL ''not a url'' = Inl (JsError ''Please enter a valid URL'') \<and>
   \<not> isl (validateUrl_A example_URL ''example.com'')"
  using validateUrl_fails_iff_unparseable [of example_URL "''not a url''"]
    validateUrl_fails_iff_unparseable [of example_URL "''example.com''"]
  by (simp add: example_URL_def startsWith_def)

text \<open>
  C5. The constructor parsing \<open>https://example.com\<close> into the hostname \<open>example.com\<close>
  and the href \<open>https://example.com/\<close>, the input \<open>example.com\<close> gives the hostname
  \<open>example.com\<close> in Component A and the href \<open>https://example.com/\<close> in Component B.
\<close>

theorem validateUrl_example_com:
  "URL ''https://example.com'' = Some u \<Longrightarrow> hostname u = ''example.com'' \<Longrightarrow>
   href u = ''https://example.com/'' \<Longrightarrow>
   validateUrl_A URL ''example.com'' = Inr ''example.com'' \<and>
   validateUrl_B URL ''example.com'' = Inr ''https://example.com/''"
  unfolding validateUrl_A_def validateUrl_B_def Let_def startsWith_def by simp

theorem validateUrl_example_com_witness:
  "example_URL ''https://example.com'' = Some \<lparr>hostname = ''example.com'', href = ''https://example.com/''\<rparr> \<and>
   validateUrl_A example_URL ''example.com'' = Inr ''example.com'' \<and>
   validateUrl_B example_URL ''example.com'' = Inr ''https://example.com/''"
using validateUrl_example_com
    [of example_URL "\<lparr>hostname = ''example.com'', href = ''https://example.com/''\<rparr>"]
  by (simp add: example_URL_def)

section \<open>Component A: the simulated Safe Browsing check\<close>

text \<open>
  C6. For every domain and every draw, \<open>checkSafeBrowsing\<close> resolves with the status
  \<open>safe\<close> or \<open>unsafe\<close>, never \<open>unknown\<close>; the status is \<open>safe\<close> exactly when the domain
  contains \<open>google.com\<close>, \<open>github.com\<close> or \<open>stackoverflow.com\<close>, or the draw exceeds 0.3;
  the details are \<open>No threats detected\<close> when safe and
  \<open>Potential security threats found\<close> otherwise.
\<close>

theorem checkSafeBrowsing_two_labels:
  "sb_status (checkSafeBrowsing domain r) \<in> {Safe, Unsafe} \<and>
   sb_status (checkSafeBrowsing domain r) \<noteq> Unknown \<and>
   (sb_status (checkSafeBrowsing domain r) = Safe \<longleftrightarrow>
      includes_str domain ''google.com'' \<or> includes_str domain ''github.com'' \<or>
      includes_str domain ''stackoverflow.com'' \<or> r > 3 / 10) \<and>
   sb_details (checkSafeBrowsing domain r) =
     (if sb_status (checkSafeBrowsing domain r) = Safe then ''No threats detected''
      else ''Potential security threats found'')"
  unfolding checkSafeBrowsing_def mockSafeResults_def Let_def by auto

theorem checkSafeBrowsing_two_labels_witness:
  "sb_status (checkSafeBrowsing ''evil.example'' (3 / 10)) = Unsafe \<and>
   sb_details (checkSafeBrowsing ''evil.example'' (3 / 10)) = ''Potential security threats found'' \<and>
   sb_status (checkSafeBrowsing ''evil.example'' (31 / 100)) = Safe \<and>
   sb_details (checkSafeBrowsing ''evil.example'' (31 / 100)) = ''No threats detected'' \<and>
   sb_status (checkSafeBrowsing ''api.github.com'' 0) = Safe \<and>
   sb_details (checkSafeBrowsing ''api.github.com'' 0) = ''No threats detected''"
proof -
  have no_match:
    "\<not> includes_str ''evil.example'' ''google.com''"
    "\<not> includes_str ''evil.example'' ''github.com''"
    "\<not> includes_str ''evil.example'' ''stackoverflow.com''"
    unfolding includes_str_def by code_simp+
  have match: "includes_str ''api.github.com'' ''github.com''"
    unfolding includes_str_def by code_simp
  show ?thesis
    using checkSafeBrowsing_two_labels [of "''evil.example''" "3 / 10"]
      checkSafeBrowsing_two_labels [of "''evil.example''" "31 / 100"]
      checkSafeBrowsing_two_labels [of "''api.github.com''" 0]
      no_match match
    by auto
qed

section \<open>Component A: joining and replacing\<close>

text \<open>
  C7. In every run of \<open>handleScan\<close>, an assignment of a record to \<open>results\<close> comes
  after both timers have fired and both checks have resolved, and the record holds the
  values the two checks resolved with. So at every point of the run the stored
  \<open>results\<close>, and what is rendered of them, is what was there before the run, nothing,
  or a record of both resolved checks: never one check without the other.
\<close>

theorem results_assigned_after_join:
  "(\<forall>pre r post. handleScan URL fmul r1 r2 s = pre @ SetResults (Some r) # post \<longrightarrow>
      SafeBrowsingResolved (safeBrowsing r) \<in> set pre \<and> SSLResolved (sslGrade r) \<in> set pre \<and>
      TimerFired 1500 \<in> set pre \<and> TimerFired 2000 \<in> set pre) \<and>
   (\<forall>pre post. handleScan URL fmul r1 r2 s = pre @ post \<longrightarrow>
      (results (scanner_run s pre) = results s \<or> results (scanner_run s pre) = None \<or>
       (\<exists>r. results (scanner_run s pre) = Some r \<and>
          SafeBrowsingResolved (safeBrowsing r) \<in> set pre \<and> SSLResolved (sslGrade r) \<in> set pre)) \<and>
      (rendered_results (scanner_run s pre) = results s \<or>
       rendered_results (scanner_run s pre) = None \<or>
       (\<exists>r. rendered_results (scanner_run s pre) = Some r \<and>
          SafeBrowsingResolved (safeBrowsing r) \<in> set pre \<and> SSLResolved (sslGrade r) \<in> set pre)))"
proof (intro conjI allI impI)
  fix pre r post
  assume "handleScan URL fmul r1 r2 s = pre @ SetResults (Some r) # post"
  from set_results_decomp [OF this]
  show "SafeBrowsingResolved (safeBrowsing r) \<in> set pre" "SSLResolved (sslGrade r) \<in> set pre"
    "TimerFired 1500 \<in> set pre" "TimerFired 2000 \<in> set pre"
    by simp_all
next
  fix pre post
  assume run: "handleScan URL fmul r1 r2 s = pre @ post"
  from stored_along_run [OF run]
  show stored: "results (scanner_run s pre) = results s \<or> results (scanner_run s pre) = None \<or>
     (\<exists>r. results (scanner_run s pre) = Some r \<and>
        SafeBrowsingResolved (safeBrowsing r) \<in> set pre \<and> SSLResolved (sslGrade r) \<in> set pre)" .
  show "rendered_results (scanner_run s pre) = results s \<or>
     rendered_results (scanner_run s pre) = None \<or>
     (\<exists>r. rendered_results (scanner_run s pre) = Some r \<and>
        SafeBrowsingResolved (safeBrowsing r) \<in> set pre \<and> SSLResolved (sslGrade r) \<in> set pre)"
    using stored by (cases "isScanning (scanner_run s pre)") (simp_all add: rendered_results_def)
qed

text \<open>
  The run on \<open>example.com\<close> with both draws 0.5: the tenth event settles the second
  check, the eleventh assigns the joined record.
\<close>

theorem results_assigned_after_join_witness:
  "handleScan example_URL example_fmul (1 / 2) (1 / 2) example_scanner =
     [SetIsScanning True, SetResults None,
      ConsoleLog ''Checking Safe Browsing for:'' ''example.com'', SetTimeout 1500,
      ConsoleLog ''Checking SSL for:'' ''example.com'', SetTimeout 2000,
      TimerFired 1500,
      SafeBrowsingResolved \<lparr>sb_status = Safe, sb_details = ''No threats detected''\<rparr>,
      TimerFired 2000,
      SSLResolved \<lparr>grade = ''B'', ssl_status = Good, ssl_details = ''SSL certificate grade: B''\<rparr>] @
     SetResults (Some \<lparr>safeBrowsing = \<lparr>sb_status = Safe, sb_details = ''No threats detected''\<rparr>,
                       sslGrade = \<lparr>grade = ''B'', ssl_status = Good,
                                   ssl_details = ''SSL certificate grade: B''\<rparr>\<rparr>) #
     [ToastA \<lparr>title = ''Scan Complete'',
              description = ''Security scan completed for example.com'', variant = None\<rparr>,
      SetIsScanning False] \<and>
   SafeBrowsingResolved \<lparr>sb_status = Safe, sb_details = ''No threats detected''\<rparr>
     \<in> set (take 10 (handleScan example_URL example_fmul (1 / 2) (1 / 2) example_scanner)) \<and>
   SSLResolved \<lparr>grade = ''B'', ssl_status = Good, ssl_details = ''SSL certificate grade: B''\<rparr>
     \<in> set (take 10 (handleScan example_URL example_fmul (1 / 2) (1 / 2) example_scanner))"
  using results_assigned_after_join
      [where URL = example_URL and fmul = example_fmul and ?r1.0 = "1 / 2" and ?r2.0 = "1 / 2" and
        s = example_scanner,
      THEN conjunct1, rule_format,
      of "take 10 (handleScan example_URL example_fmul (1 / 2) (1 / 2) example_scanner)"
         "\<lparr>safeBrowsing = \<lparr>sb_status = Safe, sb_details = ''No threats detected''\<rparr>,
           sslGrade = \<lparr>grade = ''B'', ssl_status = Good,
                       ssl_details = ''SSL certificate grade: B''\<rparr>\<rparr>"
         "drop 11 (handleScan example_URL example_fmul (1 / 2) (1 / 2) example_scanner)"]
  by (simp add: example_scan_run)

text \<open>
  C8. Once a scan has started (the field is not blank and parses), \<open>results\<close> is null
  after the first two assignments of the run. Where the SSL check resolves, the run
  ends with \<open>results\<close> holding the record of the two fresh check outputs; and the check
  resolves whenever the platform's product of the draw and 6 lies in \<open>[0, 6)\<close>. The
  final \<open>results\<close> is the same whatever \<open>results\<close> held before the scan, so nothing of a
  prior result survives.
\<close>

theorem new_scan_replaces_results:
  "trim (url s) \<noteq> [] \<Longrightarrow> validateUrl_A URL (trim (url s)) = Inr domain \<Longrightarrow>
   results (scanner_run s (take 2 (handleScan URL fmul r1 r2 s))) = None \<and>
   (\<forall>ssl. checkSSL fmul domain r2 = Inr ssl \<longrightarrow>
      results (scanner_run s (handleScan URL fmul r1 r2 s)) =
        Some \<lparr>safeBrowsing = checkSafeBrowsing domain r1, sslGrade = ssl\<rparr>) \<and>
   (0 \<le> fmul r2 6 \<and> fmul r2 6 < 6 \<longrightarrow> (\<exists>ssl. checkSSL fmul domain r2 = Inr ssl)) \<and>
   results (scanner_run (s\<lparr>results := old\<rparr>) (handleScan URL fmul r1 r2 (s\<lparr>results := old\<rparr>))) =
     results (scanner_run s (handleScan URL fmul r1 r2 s))"
proof -
  assume nb: "trim (url s) \<noteq> []" and v: "validateUrl_A URL (trim (url s)) = Inr domain"
  have resolved: "results (scanner_run s' (handleScan URL fmul r1 r2 s')) =
        Some \<lparr>safeBrowsing = checkSafeBrowsing domain r1, sslGrade = ssl\<rparr> \<and>
      results (scanner_run s' (take 2 (handleScan URL fmul r1 r2 s'))) = None"
    if "url s' = url s" "checkSSL fmul domain r2 = Inr ssl" for s' ssl
    using that nb v by (simp add: handleScan_complete scanner_run_def)
  have rejected: "results (scanner_run s' (handleScan URL fmul r1 r2 s')) = None \<and>
      results (scanner_run s' (take 2 (handleScan URL fmul r1 r2 s'))) = None"
    if "url s' = url s" "checkSSL fmul domain r2 = Inl e" for s' e
    using that nb v by (simp add: handleScan_rejected scanner_run_def)
  have in_range: "0 \<le> fmul r2 6 \<and> fmul r2 6 < 6 \<longrightarrow> (\<exists>ssl. checkSSL fmul domain r2 = Inr ssl)"
    using checkSSL_in_range [of fmul r2 domain] by blast
  show ?thesis
  proof (cases "checkSSL fmul domain r2")
    case (Inl e)
    from rejected [of s, OF _ Inl] rejected [of "s\<lparr>results := old\<rparr>", OF _ Inl] Inl in_range
    show ?thesis by simp
  next
    case (Inr ssl)
    from resolved [of s, OF _ Inr] resolved [of "s\<lparr>results := old\<rparr>", OF _ Inr] Inr in_range
    show ?thesis by simp
  qed
qed

text \<open>
  Two scans of \<open>example.com\<close> over a stored result of grade F and status unsafe. With the
  second draw 0.5 the run ends with the fresh record of grade B. With the second draw
  just below 5/6, where the product is rounded to 5, it ends with a fresh record of
  grade F and status safe.
\<close>

theorem new_scan_replaces_results_witness:
  "results stale_scanner =
     Some \<lparr>safeBrowsing = \<lparr>sb_status = Unsafe, sb_details = ''Potential security threats found''\<rparr>,
           sslGrade = \<lparr>grade = ''F'', ssl_status = Poor,
                       ssl_details = ''SSL certificate grade: F''\<rparr>\<rparr> \<and>
   results (scanner_run stale_scanner
              (take 2 (handleScan example_URL example_fmul (1 / 2) (1 / 2) stale_scanner))) = None \<and>
   results (scanner_run stale_scanner
              (handleScan example_URL example_fmul (1 / 2) (1 / 2) stale_scanner)) =
     Some \<lparr>safeBrowsing = \<lparr>sb_status = Safe, sb_details = ''No threats detected''\<rparr>,
           sslGrade = \<lparr>grade = ''B'', ssl_status = Good,
                       ssl_details = ''SSL certificate grade: B''\<rparr>\<rparr> \<and>
   results (scanner_run stale_scanner
              (handleScan example_URL example_fmul (1 / 2) (3752999689475413 / 4503599627370496)
                 stale_scanner)) =
     Some \<lparr>safeBrowsing = \<lparr>sb_status = Safe, sb_details = ''No threats detected''\<rparr>,
           sslGrade = \<lparr>grade = ''F'', ssl_status = Poor,
                       ssl_details = ''SSL certificate grade: F''\<rparr>\<rparr>"
proof -
  have h: "trim (url stale_scanner) \<noteq> []"
    "validateUrl_A example_URL (trim (url stale_scanner)) = Inr ''example.com''"
    by (simp_all add: stale_scan_facts example_scan_facts)
  note run = new_scan_replaces_results
    [where s = stale_scanner and URL = example_URL and domain = "''example.com''" and
      fmul = example_fmul and ?r1.0 = "1 / 2" and ?r2.0 = "1 / 2" and old = None, OF h]
  note run' = new_scan_replaces_results
    [where s = stale_scanner and URL = example_URL and domain = "''example.com''" and
      fmul = example_fmul and ?r1.0 = "1 / 2" and
      ?r2.0 = "3752999689475413 / 4503599627370496" and old = None, OF h]
  have prior: "results stale_scanner =
     Some \<lparr>safeBrowsing = \<lparr>sb_status = Unsafe, sb_details = ''Potential security threats found''\<rparr>,
           sslGrade = \<lparr>grade = ''F'', ssl_status = Poor,
                       ssl_details = ''SSL certificate grade: F''\<rparr>\<rparr>"
    by (simp add: stale_scanner_def)
  from run [THEN conjunct2, THEN conjunct1, rule_format, OF example_scan_facts(3)]
  have fresh: "results (scanner_run stale_scanner
              (handleScan example_URL example_fmul (1 / 2) (1 / 2) stale_scanner)) =
     Some \<lparr>safeBrowsing = \<lparr>sb_status = Safe, sb_details = ''No threats detected''\<rparr>,
           sslGrade = \<lparr>grade = ''B'', ssl_status = Good,
                       ssl_details = ''SSL certificate grade: B''\<rparr>\<rparr>"
    by (simp add: example_scan_facts(4))
  from run' [THEN conjunct2, THEN conjunct1, rule_format, OF rounded_draw_fact]
  have rounded: "results (scanner_run stale_scanner
              (handleScan example_URL example_fmul (1 / 2) (3752999689475413 / 4503599627370496)
                 stale_scanner)) =
     Some \<lparr>safeBrowsing = \<lparr>sb_status = Safe, sb_details = ''No threats detected''\<rparr>,
           sslGrade = \<lparr>grade = ''F'', ssl_status = Poor,
                       ssl_details = ''SSL certificate grade: F''\<rparr>\<rparr>"
    by (simp add: example_scan_facts(4))
  from prior run [THEN conjunct1] fresh rounded show ?thesis by blast
qed

section \<open>Component B: the verdict and the API error\<close>

text \<open>
  C4. When the response has a status outside of 200 to 299, the \<open>try\<close> block of
  \<open>checkSafety\<close> throws the \<open>Error\<close> with the message \<open>API Error: \<close> followed by the
  status in decimal, after having cleared \<open>result\<close>; the error is shown as the
  \<open>Check Failed\<close> notification, \<open>result\<close> is null when the run ends, and \<open>isChecking\<close> is
  false.
\<close>

theorem non_2xx_raises_api_error:
  "trim (url_B c) \<noteq> [] \<Longrightarrow> validateUrl_B URL (trim (url_B c)) = Inr v \<Longrightarrow>
   fetch v = Inr response \<Longrightarrow> status response < 200 \<or> 299 < status response \<Longrightarrow>
   checkSafety_try URL fetch c =
     ([SetIsChecking True, SetResult None, FetchPost v],
      Some (JsError (''API Error: '' @ string_of_nat (status response)))) \<and>
   checkSafety URL fetch c =
     [SetIsChecking True, SetResult None, FetchPost v,
      ConsoleError ''Security check error:''
        (JsError (''API Error: '' @ string_of_nat (status response))),
      ToastB \<lparr>title = ''Check Failed'',
              description = ''API Error: '' @ string_of_nat (status response),
              variant = Some ''destructive''\<rparr>,
      SetIsChecking False] \<and>
   result (checker_run c (checkSafety URL fetch c)) = None \<and>
   \<not> isChecking (checker_run c (checkSafety URL fetch c))"
proof -
  assume nb: "trim (url_B c) \<noteq> []" and v: "validateUrl_B URL (trim (url_B c)) = Inr v"
    and f: "fetch v = Inr response" and st: "status response < 200 \<or> 299 < status response"
  from st have "\<not> response_ok response" by (auto simp add: response_ok_def)
  from checkSafety_not_ok [where fetch = fetch, OF nb v f this] show ?thesis
    by (simp add: checkSafety_catch_def error_message_def checker_run_def)
qed

text \<open>The status 404 gives the message \<open>API Error: 404\<close>.\<close>

theorem non_2xx_raises_api_error_witness:
  "checkSafety_try example_URL (example_fetch 404 None) example_checker =
     ([SetIsChecking True, SetResult None, FetchPost ''https://example.com/''],
      Some (JsError ''API Error: 404'')) \<and>
   result (checker_run example_checker
             (checkSafety example_URL (example_fetch 404 None) example_checker)) = None"
proof -
  have d: "string_of_nat 404 = ''404''" by code_simp
  have h: "trim (url_B example_checker) \<noteq> []"
    "validateUrl_B example_URL (trim (url_B example_checker)) = Inr ''https://example.com/''"
    "example_fetch 404 None ''https://example.com/'' =
       Inr \<lparr>status = 404, json = Inr \<lparr>matches = None\<rparr>\<rparr>"
    "status \<lparr>status = 404, json = Inr \<lparr>matches = None\<rparr>\<rparr> < 200 \<or>
     299 < status \<lparr>status = 404, json = Inr \<lparr>matches = None\<rparr>\<rparr>"
    by (simp_all add: example_check_facts example_fetch_def)
  note run = non_2xx_raises_api_error
    [of example_checker example_URL "''https://example.com/''" "example_fetch 404 None"
        "\<lparr>status = 404, json = Inr \<lparr>matches = None\<rparr>\<rparr>", OF h]
  from run [THEN conjunct1] run [THEN conjunct2, THEN conjunct2, THEN conjunct1]
  show ?thesis by (simp add: d)
qed

text \<open>
  C1. For every response with a status from 200 to 299 whose body parses: where
  \<open>matches\<close> is absent or empty, the stored result is \<open>{safe: true}\<close> and no threat tag is
  rendered; where \<open>matches\<close> is not empty, the stored result is \<open>{safe: false}\<close> with the
  \<open>threatType\<close> strings of the matches in their order, and the tags rendered are these
  strings with every underscore replaced by a space. So the verdict is unsafe exactly
  when \<open>matches\<close> is a list that is not empty.
\<close>

theorem verdict_unsafe_iff_matches:
  "trim (url_B c) \<noteq> [] \<Longrightarrow> validateUrl_B URL (trim (url_B c)) = Inr v \<Longrightarrow>
   fetch v = Inr response \<Longrightarrow> response_ok response \<Longrightarrow> json response = Inr data \<Longrightarrow>
   (matches data = None \<or> matches data = Some [] \<longrightarrow>
      result (checker_run c (checkSafety URL fetch c)) = Some \<lparr>safe = True, threats = None\<rparr> \<and>
      threat_tags (checker_run c (checkSafety URL fetch c)) = []) \<and>
   (\<forall>ms. matches data = Some ms \<and> ms \<noteq> [] \<longrightarrow>
      result (checker_run c (checkSafety URL fetch c)) =
        Some \<lparr>safe = False, threats = Some (map threatType ms)\<rparr> \<and>
      threat_tags (checker_run c (checkSafety URL fetch c)) =
        map (\<lambda>m. map (\<lambda>ch. if ch = CHR ''_'' then CHR '' '' else ch) (threatType m)) ms) \<and>
   ((\<exists>r. result (checker_run c (checkSafety URL fetch c)) = Some r \<and> \<not> safe r) \<longleftrightarrow>
    (\<exists>ms. matches data = Some ms \<and> ms \<noteq> []))"
proof -
  assume nb: "trim (url_B c) \<noteq> []" and v: "validateUrl_B URL (trim (url_B c)) = Inr v"
    and f: "fetch v = Inr response" and ok: "response_ok response"
    and d: "json response = Inr data"
  have none: "matches data = None \<or> matches data = Some [] \<Longrightarrow>
      result (checker_run c (checkSafety URL fetch c)) = Some \<lparr>safe = True, threats = None\<rparr> \<and>
      threat_tags (checker_run c (checkSafety URL fetch c)) = []"
    using checkSafety_no_match [where fetch = fetch, OF nb v f ok d]
    by (simp add: checker_run_def threat_tags_def)
  have some: "\<And>ms. matches data = Some ms \<Longrightarrow> ms \<noteq> [] \<Longrightarrow>
      result (checker_run c (checkSafety URL fetch c)) =
        Some \<lparr>safe = False, threats = Some (map threatType ms)\<rparr> \<and>
      threat_tags (checker_run c (checkSafety URL fetch c)) =
        map (\<lambda>m. map (\<lambda>ch. if ch = CHR ''_'' then CHR '' '' else ch) (threatType m)) ms"
    using checkSafety_match [where fetch = fetch, OF nb v f ok d]
    by (simp add: checker_run_def threat_tags_def replace_underscores_def)
  show ?thesis
  proof (cases "\<exists>ms. matches data = Some ms \<and> ms \<noteq> []")
    case True
    then obtain ms where ms: "matches data = Some ms" "ms \<noteq> []" by blast
    from some [OF ms] ms show ?thesis by auto
  next
    case False
    then have "matches data = None \<or> matches data = Some []"
      by (cases "matches data") auto
    from none [OF this] this False show ?thesis by auto
  qed
qed

text \<open>Two matches, an empty list, and no \<open>matches\<close> field.\<close>

theorem verdict_unsafe_iff_matches_witness:
  "result (checker_run example_checker
             (checkSafety example_URL (example_fetch 200 (Some example_matches)) example_checker)) =
     Some \<lparr>safe = False,
           threats = Some [''SOCIAL_ENGINEERING'', ''POTENTIALLY_HARMFUL_APPLICATION'']\<rparr> \<and>
   threat_tags (checker_run example_checker
             (checkSafety example_URL (example_fetch 200 (Some example_matches)) example_checker)) =
     [''SOCIAL ENGINEERING'', ''POTENTIALLY HARMFUL APPLICATION''] \<and>
   result (checker_run example_checker
             (checkSafety example_URL (example_fetch 200 (Some [])) example_checker)) =
     Some \<lparr>safe = True, threats = None\<rparr> \<and>
   threat_tags (checker_run example_checker
             (checkSafety example_URL (example_fetch 200 (Some [])) example_checker)) = [] \<and>
   result (checker_run example_checker
             (checkSafety example_URL (example_fetch 200 None) example_checker)) =
     Some \<lparr>safe = True, threats = None\<rparr>"
proof -
  have h: "trim (url_B example_checker) \<noteq> []"
    "validateUrl_B example_URL (trim (url_B example_checker)) = Inr ''https://example.com/''"
    by (simp_all add: example_check_facts)
  have f: "\<And>ms. example_fetch 200 ms ''https://example.com/'' =
      Inr \<lparr>status = 200, json = Inr \<lparr>matches = ms\<rparr>\<rparr>"
    "\<And>ms. response_ok \<lparr>status = 200, json = Inr \<lparr>matches = ms\<rparr>\<rparr>"
    "\<And>ms. json \<lparr>status = 200, json = Inr \<lparr>matches = ms\<rparr>\<rparr> = Inr \<lparr>matches = ms\<rparr>"
    by (simp_all add: example_fetch_def response_ok_def)
  note run_match = verdict_unsafe_iff_matches
    [of example_checker example_URL "''https://example.com/''" "example_fetch 200 (Some example_matches)"
        "\<lparr>status = 200, json = Inr \<lparr>matches = Some example_matches\<rparr>\<rparr>" "\<lparr>matches = Some example_matches\<rparr>",
     OF h f]
  note run_empty = verdict_unsafe_iff_matches
    [of example_checker example_URL "''https://example.com/''" "example_fetch 200 (Some [])"
        "\<lparr>status = 200, json = Inr \<lparr>matches = Some []\<rparr>\<rparr>" "\<lparr>matches = Some []\<rparr>",
     OF h f]
  note run_absent = verdict_unsafe_iff_matches
    [of example_checker example_URL "''https://example.com/''" "example_fetch 200 (None)"
        "\<lparr>status = 200, json = Inr \<lparr>matches = None\<rparr>\<rparr>" "\<lparr>matches = None\<rparr>",
     OF h f]
  from run_match [THEN conjunct2, THEN conjunct1, rule_format, of example_matches]
  have unsafe: "result (checker_run example_checker
        (checkSafety example_URL (example_fetch 200 (Some example_matches)) example_checker)) =
      Some \<lparr>safe = False, threats = Some (map threatType example_matches)\<rparr>"
    "threat_tags (checker_run example_checker
        (checkSafety example_URL (example_fetch 200 (Some example_matches)) example_checker)) =
      map (\<lambda>m. map (\<lambda>ch. if ch = CHR ''_'' then CHR '' '' else ch) (threatType m))
        example_matches"
    by (simp_all add: example_matches_def)
  from run_empty [THEN conjunct1] run_absent [THEN conjunct1] unsafe
  show ?thesis by (simp add: example_matches_def)
qed

section \<open>Both components: how a scan ends\<close>

text \<open>
  C9. In both components a run that enters the \<open>try\<close> block (the field is not blank)
  ends with the scanning flag false, whether it succeeds, fails validation or fails in
  operation; so does the early return when the flag was false before. Whatever the
  \<open>try\<close> block throws is caught: the run goes on with the notification of the error
  (after the console output, in Component B) and the \<open>finally\<close> assignment, and then it is
  over. Nothing is started again: in a run each timer is set at most once, and at most
  one request is sent. The model covers the runs in which \<open>fetch\<close> settles.
\<close>

theorem scan_always_ends_idle:
  "(trim (url s) \<noteq> [] \<or> \<not> isScanning s \<longrightarrow>
      \<not> isScanning (scanner_run s (handleScan URL fmul r1 r2 s))) \<and>
   (trim (url_B c) \<noteq> [] \<or> \<not> isChecking c \<longrightarrow>
      \<not> isChecking (checker_run c (checkSafety URL fetch c))) \<and>
   (\<forall>evs e. trim (url s) \<noteq> [] \<and> handleScan_try URL fmul r1 r2 s = (evs, Some e) \<longrightarrow>
      handleScan URL fmul r1 r2 s =
        evs @ [ToastA \<lparr>title = ''Scan Failed'',
                       description = error_message e ''Failed to scan website'',
                       variant = Some ''destructive''\<rparr>,
               SetIsScanning False]) \<and>
   (\<forall>evs e. trim (url_B c) \<noteq> [] \<and> checkSafety_try URL fetch c = (evs, Some e) \<longrightarrow>
      (\<exists>t. checkSafety URL fetch c =
            evs @ [ConsoleError ''Security check error:'' e, ToastB t, SetIsChecking False] \<and>
          variant t = Some ''destructive'' \<and>
          (title t = ''Connection Error'' \<or>
           title t = ''Check Failed'' \<and>
           description t = error_message e ''Failed to check website safety''))) \<and>
   (\<forall>pre d post. handleScan URL fmul r1 r2 s = pre @ SetTimeout d # post \<longrightarrow>
      SetTimeout d \<notin> set pre \<and> SetTimeout d \<notin> set post) \<and>
   (\<forall>pre v post w. checkSafety URL fetch c = pre @ FetchPost v # post \<longrightarrow>
      FetchPost w \<notin> set pre \<and> FetchPost w \<notin> set post)"
proof (intro conjI allI impI)
  assume "trim (url s) \<noteq> [] \<or> \<not> isScanning s"
  then show "\<not> isScanning (scanner_run s (handleScan URL fmul r1 r2 s))"
    by (rule handleScan_ends_idle)
next
  assume "trim (url_B c) \<noteq> [] \<or> \<not> isChecking c"
  then show "\<not> isChecking (checker_run c (checkSafety URL fetch c))"
    by (rule checkSafety_ends_idle)
next
  fix evs e
  assume "trim (url s) \<noteq> [] \<and> handleScan_try URL fmul r1 r2 s = (evs, Some e)"
  then show "handleScan URL fmul r1 r2 s =
      evs @ [ToastA \<lparr>title = ''Scan Failed'',
                     description = error_message e ''Failed to scan website'',
                     variant = Some ''destructive''\<rparr>,
             SetIsScanning False]"
    by (simp add: handleScan_caught)
next
  fix evs e
  assume "trim (url_B c) \<noteq> [] \<and> checkSafety_try URL fetch c = (evs, Some e)"
  then show "\<exists>t. checkSafety URL fetch c =
        evs @ [ConsoleError ''Security check error:'' e, ToastB t, SetIsChecking False] \<and>
      variant t = Some ''destructive'' \<and>
      (title t = ''Connection Error'' \<or>
       title t = ''Check Failed'' \<and>
       description t = error_message e ''Failed to check website safety'')"
    using checkSafety_caught [of c URL fetch evs e] by blast
next
  fix pre d post
  assume run: "handleScan URL fmul r1 r2 s = pre @ SetTimeout d # post"
  from handleScan_timers_once [OF run]
  show "SetTimeout d \<notin> set pre" "SetTimeout d \<notin> set post" by simp_all
next
  fix pre v post w
  assume run: "checkSafety URL fetch c = pre @ FetchPost v # post"
  from checkSafety_fetch_once [OF run, of w]
  show "FetchPost w \<notin> set pre" "FetchPost w \<notin> set post" by simp_all
qed

text \<open>
  A scan of \<open>not a url\<close> in Component A and a response of status 404 in Component B:
  both runs end with the flag false, the first with the one notification of its error.
\<close>

theorem scan_always_ends_idle_witness:
  "\<not> isScanning
       (scanner_run (example_scanner\<lparr>url := ''not a url''\<rparr>)
          (handleScan example_URL example_fmul (1 / 2) (1 / 2) (example_scanner\<lparr>url := ''not a url''\<rparr>))) \<and>
   handleScan example_URL example_fmul (1 / 2) (1 / 2) (example_scanner\<lparr>url := ''not a url''\<rparr>) =
     [ToastA \<lparr>title = ''Scan Failed'', description = ''Please enter a valid URL'',
              variant = Some ''destructive''\<rparr>,
      SetIsScanning False] \<and>
   \<not> isChecking
       (checker_run example_checker
          (checkSafety example_URL (example_fetch 404 None) example_checker))"
proof -
  have a: "trim (url (example_scanner\<lparr>url := ''not a url''\<rparr>)) \<noteq> []"
    "handleScan_try example_URL example_fmul (1 / 2) (1 / 2) (example_scanner\<lparr>url := ''not a url''\<rparr>) =
       ([], Some (JsError ''Please enter a valid URL''))"
    by (simp_all add: handleScan_try_def validateUrl_A_def example_URL_def startsWith_def
        trim_def isWhiteSpace_def)
  have b: "trim (url_B example_checker) \<noteq> []"
    by (simp add: example_check_facts)
  note all = scan_always_ends_idle
    [where s = "example_scanner\<lparr>url := ''not a url''\<rparr>" and URL = example_URL and
      fmul = example_fmul and ?r1.0 = "1 / 2" and ?r2.0 = "1 / 2" and c = example_checker and
      fetch = "example_fetch 404 None"]
  from all [THEN conjunct1] a(1)
  have idle_A: "\<not> isScanning
       (scanner_run (example_scanner\<lparr>url := ''not a url''\<rparr>)
          (handleScan example_URL example_fmul (1 / 2) (1 / 2) (example_scanner\<lparr>url := ''not a url''\<rparr>)))"
    by blast
  from all [THEN conjunct2, THEN conjunct1] b
  have idle_B: "\<not> isChecking
       (checker_run example_checker
          (checkSafety example_URL (example_fetch 404 None) example_checker))"
    by blast
  from all [THEN conjunct2, THEN conjunct2, THEN conjunct1, rule_format,
      of "[]" "JsError ''Please enter a valid URL''"] a
  have caught: "handleScan example_URL example_fmul (1 / 2) (1 / 2) (example_scanner\<lparr>url := ''not a url''\<rparr>) =
     [ToastA \<lparr>title = ''Scan Failed'', description = ''Please enter a valid URL'',
              variant = Some ''destructive''\<rparr>,
      SetIsScanning False]"
    by (simp add: error_message_def)
  from idle_A caught idle_B show ?thesis by blast
qed

text \<open>
  C10. In both components, a field that is empty or holds white space only trims to the
  empty string, and the run is the \<open>URL Required\<close> notification and nothing else: the
  scanning flag is not assigned, no timer is set and no request is sent, and the state,
  the stored result included, is what it was.
\<close>

theorem blank_url_returns_early:
  "((\<forall>ch \<in> set (url s). isWhiteSpace ch) \<longrightarrow>
      trim (url s) = [] \<and>
      handleScan URL fmul r1 r2 s =
        [ToastA \<lparr>title = ''URL Required'', description = ''Please enter a website URL to scan'',
                 variant = Some ''destructive''\<rparr>] \<and>
      scanner_run s (handleScan URL fmul r1 r2 s) = s) \<and>
   ((\<forall>ch \<in> set (url_B c). isWhiteSpace ch) \<longrightarrow>
      trim (url_B c) = [] \<and>
      checkSafety URL fetch c =
        [ToastB \<lparr>title = ''URL Required'', description = ''Please enter a website URL to check'',
                 variant = Some ''destructive''\<rparr>] \<and>
      checker_run c (checkSafety URL fetch c) = c)"
  using blank_scan [where s = s and URL = URL and fmul = fmul and ?r1.0 = r1 and ?r2.0 = r2]
    blank_check [of c URL fetch]
  by blast


text \<open>
  A field of a space, a tab and a line feed over a stored result in Component A, and a
  field of two spaces in Component B.
\<close>

theorem blank_url_returns_early_witness:
  "handleScan example_URL example_fmul (1 / 2) (1 / 2) blank_scanner =
     [ToastA \<lparr>title = ''URL Required'', description = ''Please enter a website URL to scan'',
              variant = Some ''destructive''\<rparr>] \<and>
   scanner_run blank_scanner (handleScan example_URL example_fmul (1 / 2) (1 / 2) blank_scanner) =
     blank_scanner \<and>
   results blank_scanner = results stale_scanner \<and>
   checkSafety example_URL (example_fetch 200 None) (example_checker\<lparr>url_B := ''  ''\<rparr>) =
     [ToastB \<lparr>title = ''URL Required'', description = ''Please enter a website URL to check'',
              variant = Some ''destructive''\<rparr>] \<and>
   checker_run (example_checker\<lparr>url_B := ''  ''\<rparr>)
     (checkSafety example_URL (example_fetch 200 None) (example_checker\<lparr>url_B := ''  ''\<rparr>)) =
     example_checker\<lparr>url_B := ''  ''\<rparr>"
proof -
  have a: "\<forall>ch \<in> set (url blank_scanner). isWhiteSpace ch"
    by (simp add: blank_scanner_def isWhiteSpace_def)
  have b: "\<forall>ch \<in> set (url_B (example_checker\<lparr>url_B := ''  ''\<rparr>)). isWhiteSpace ch"
    by (simp add: isWhiteSpace_def)
  note both = blank_url_returns_early
    [where s = blank_scanner and URL = example_URL and fmul = example_fmul and
      ?r1.0 = "1 / 2" and ?r2.0 = "1 / 2" and c = "example_checker\<lparr>url_B := ''  ''\<rparr>" and
      fetch = "example_fetch 200 None"]
  have kept: "results blank_scanner = results stale_scanner"
    by (simp add: blank_scanner_def)
  from both [THEN conjunct1, THEN mp, OF a] both [THEN conjunct2, THEN mp, OF b] kept
  show ?thesis by blast
qed

end
